theory Spec2Isabelle
  imports Main
begin

section \<open>The CivitAI download script \<^verbatim>\<open>src/download.py\<close>\<close>

text \<open>
  The script is a straight line of five steps: resolve the token, check the model ID,
  check the token, probe the metadata endpoint with one HTTP GET, and hand the download
  to \<^verbatim>\<open>wget\<close>. The embedding starts where \<^verbatim>\<open>parser.parse_args()\<close> has returned: its
  inputs are the parsed arguments, the process environment and the answers of the two
  outside parties (the HTTP library and the spawned process); its result is the exit
  code of the process together with the list of effects in the order they happened.
\<close>

subsection \<open>Python strings\<close>

text \<open>
  A Python \<^verbatim>\<open>str\<close> is a sequence of Unicode code points, so a string is a list of
  naturals here and not a list of 8-bit characters. \<open>lit\<close> reads an ASCII literal of the
  source as such a string.
\<close>

type_synonym pystr = "nat list"

definition lit :: "string \<Rightarrow> pystr" where
  "lit s = map of_char s"

subsection \<open>\<^verbatim>\<open>str.isdigit\<close>\<close>

text \<open>
  \<^verbatim>\<open>str.isdigit()\<close> is true when the string has at least one character and every
  character is a digit, where a digit is a code point whose Unicode property
  Numeric\_Type is Digit or Decimal. The table lists these code points as inclusive
  ranges (Unicode Character Database 14.0.0, the one of CPython 3.11). ASCII
  \<^verbatim>\<open>0\<close>..\<^verbatim>\<open>9\<close> is the first range; the superscripts U+00B2, U+00B3 and U+00B9 follow.
\<close>

definition digit_ranges :: "(nat \<times> nat) list" where
  "digit_ranges = [
    (48, 57), (178, 179), (185, 185), (1632, 1641), (1776, 1785), (1984, 1993),
    (2406, 2415), (2534, 2543), (2662, 2671), (2790, 2799), (2918, 2927), (3046, 3055),
    (3174, 3183), (3302, 3311), (3430, 3439), (3558, 3567), (3664, 3673), (3792, 3801),
    (3872, 3881), (4160, 4169), (4240, 4249), (4969, 4977), (6112, 6121), (6160, 6169),
    (6470, 6479), (6608, 6618), (6784, 6793), (6800, 6809), (6992, 7001), (7088, 7097),
    (7232, 7241), (7248, 7257), (8304, 8304), (8308, 8313), (8320, 8329), (9312, 9320),
    (9332, 9340), (9352, 9360), (9450, 9450), (9461, 9469), (9471, 9471), (10102, 10110),
    (10112, 10120), (10122, 10130), (42528, 42537), (43216, 43225), (43264, 43273),
    (43472, 43481), (43504, 43513), (43600, 43609), (44016, 44025), (65296, 65305),
    (66720, 66729), (68160, 68163), (68912, 68921), (69216, 69224), (69714, 69722),
    (69734, 69743), (69872, 69881), (69942, 69951), (70096, 70105), (70384, 70393),
    (70736, 70745), (70864, 70873), (71248, 71257), (71360, 71369), (71472, 71481),
    (71904, 71913), (72016, 72025), (72784, 72793), (73040, 73049), (73120, 73129),
    (92768, 92777), (92864, 92873), (93008, 93017), (120782, 120831), (123200, 123209),
    (123632, 123641), (125264, 125273), (127232, 127242), (130032, 130041)]"

definition in_range :: "nat \<Rightarrow> nat \<times> nat \<Rightarrow> bool" where
  "in_range c r = (fst r \<le> c \<and> c \<le> snd r)"

definition unicode_digit :: "nat \<Rightarrow> bool" where
  "unicode_digit c = list_ex (in_range c) digit_ranges"

definition str_isdigit :: "pystr \<Rightarrow> bool" where
  "str_isdigit s = (s \<noteq> [] \<and> list_all unicode_digit s)"

text \<open>
  The specification's wording of the same test: the string matches \<^verbatim>\<open>^[0-9]+$\<close>, that
  is, it is not empty and all its characters are among the ASCII digits 0 to 9 (code
  points 48 to 57).
\<close>

definition ascii_digit :: "nat \<Rightarrow> bool" where
  "ascii_digit c = (48 \<le> c \<and> c \<le> 57)"

definition matches_digits_regex :: "pystr \<Rightarrow> bool" where
  "matches_digits_regex s = (s \<noteq> [] \<and> list_all ascii_digit s)"

subsection \<open>Arguments, environment and the outside world\<close>

text \<open>
  \<^verbatim>\<open>args.model\<close> is required and always a string; \<^verbatim>\<open>args.token\<close> is \<^verbatim>\<open>None\<close> when
  \<^verbatim>\<open>--token\<close> is not given.
\<close>

record args =
  model :: pystr
  token :: "pystr option"

text \<open>
  The world holds the process environment, the status code \<^verbatim>\<open>requests.get\<close> answers
  for a URL and the return code of \<^verbatim>\<open>subprocess.run\<close> for an argument vector. \<open>None\<close>
  stands for a call that raises instead of returning (no connection, no \<^verbatim>\<open>wget\<close>
  binary): the script catches nothing, so the interpreter prints a traceback and the
  process ends with exit code 1.
\<close>

record world =
  environ :: "pystr \<rightharpoonup> pystr"
  requests_get :: "pystr \<Rightarrow> int option"
  subprocess_run :: "pystr list \<Rightarrow> int option"

datatype event =
    Print pystr
  | RequestsGet pystr "int option"
  | SubprocessRun "pystr list" "int option"
  | Traceback

record outcome =
  exit_code :: int
  trace :: "event list"

fun is_get :: "event \<Rightarrow> bool" where
  "is_get (RequestsGet u r) = True"
| "is_get e = False"

fun is_run :: "event \<Rightarrow> bool" where
  "is_run (SubprocessRun argv r) = True"
| "is_run e = False"

fun is_print :: "event \<Rightarrow> bool" where
  "is_print (Print m) = True"
| "is_print e = False"

text \<open>\<^verbatim>\<open>os.getenv(key, default)\<close>: the value of the variable when it is set, else the default.\<close>

definition os_getenv :: "(pystr \<rightharpoonup> pystr) \<Rightarrow> pystr \<Rightarrow> pystr option \<Rightarrow> pystr option" where
  "os_getenv env key dflt = (case env key of Some v \<Rightarrow> Some v | None \<Rightarrow> dflt)"

text \<open>Truth value of an optional string: \<^verbatim>\<open>None\<close> and the empty string are false.\<close>

fun truthy :: "pystr option \<Rightarrow> bool" where
  "truthy None = False"
| "truthy (Some s) = (s \<noteq> [])"

text \<open>What an f-string puts in place of \<^verbatim>\<open>{x}\<close>: a string as it is, \<^verbatim>\<open>None\<close> as its name.\<close>

fun fmt :: "pystr option \<Rightarrow> pystr" where
  "fmt None = lit ''None''"
| "fmt (Some s) = s"

subsection \<open>The script\<close>

definition civitai_token :: pystr where
  "civitai_token = lit ''civitai_token''"

definition msg_InvalidInput :: pystr where
  "msg_InvalidInput = lit ''Error: model ID must be numeric.''"

definition msg_MissingCredential :: pystr where
  "msg_MissingCredential =
     lit ''Error: no token provided. Set the 'civitai_token' environment variable or use --token.''"

definition msg_MetadataLookupFailed :: pystr where
  "msg_MetadataLookupFailed = lit ''Error: Failed to retrieve model metadata.''"

definition msg_DownloadFailed :: pystr where
  "msg_DownloadFailed = lit ''Error: wget download failed.''"

definition metadata_url :: "pystr \<Rightarrow> pystr" where
  "metadata_url m = lit ''https://civitai.com/api/v1/model-versions/'' @ m"

definition download_url :: "pystr \<Rightarrow> pystr \<Rightarrow> pystr" where
  "download_url m t =
     lit ''https://civitai.com/api/download/models/'' @ m
       @ lit ''?type=Model&format=SafeTensor&token='' @ t"

definition wget_argv :: "pystr \<Rightarrow> pystr list" where
  "wget_argv u = [lit ''wget'', u, lit ''--content-disposition'']"

text \<open>
  The download step, entered with a non-empty token after the probe answered 200.
\<close>

definition download :: "world \<Rightarrow> pystr \<Rightarrow> pystr \<Rightarrow> outcome" where
  "download w m t =
     (let argv = wget_argv (download_url m t);
          result = subprocess_run w argv
      in case result of
           None \<Rightarrow> \<lparr>exit_code = 1, trace = [SubprocessRun argv None, Traceback]\<rparr>
         | Some returncode \<Rightarrow>
             if returncode \<noteq> 0
             then \<lparr>exit_code = 1, trace = [SubprocessRun argv result, Print msg_DownloadFailed]\<rparr>
             else \<lparr>exit_code = 0, trace = [SubprocessRun argv result]\<rparr>)"

definition after :: "event \<Rightarrow> outcome \<Rightarrow> outcome" where
  "after e out = out\<lparr>trace := e # trace out\<rparr>"

definition main :: "args \<Rightarrow> world \<Rightarrow> outcome" where
  "main a w =
     (let tok = os_getenv (environ w) civitai_token (token a)
      in if \<not> str_isdigit (model a)
         then \<lparr>exit_code = 1, trace = [Print msg_InvalidInput]\<rparr>
         else if \<not> truthy tok
         then \<lparr>exit_code = 1, trace = [Print msg_MissingCredential]\<rparr>
         else
           (let url = metadata_url (model a);
                response = requests_get w url
            in case response of
                 None \<Rightarrow> \<lparr>exit_code = 1, trace = [RequestsGet url None, Traceback]\<rparr>
               | Some status_code \<Rightarrow>
                   if status_code = 200
                   then after (RequestsGet url response)
                          (download w (model a) (fmt tok))
                   else \<lparr>exit_code = 1,
                         trace = [RequestsGet url response, Print msg_MetadataLookupFailed]\<rparr>))"

subsection \<open>Sample invocations\<close>

text \<open>
  Concrete environments and worlds on which the theorems below are instantiated: an
  environment with or without the variable, and a world whose endpoint answers one
  status for every URL and whose \<^verbatim>\<open>wget\<close> ends with one return code.
\<close>

definition no_env :: "pystr \<rightharpoonup> pystr" where
  "no_env = Map.empty"

definition sample_env :: "pystr \<Rightarrow> (pystr \<rightharpoonup> pystr)" where
  "sample_env v = no_env(civitai_token \<mapsto> v)"

definition sample_world :: "(pystr \<rightharpoonup> pystr) \<Rightarrow> int \<Rightarrow> int \<Rightarrow> world" where
  "sample_world env status rc =
     \<lparr>environ = env, requests_get = (\<lambda>u. Some status), subprocess_run = (\<lambda>argv. Some rc)\<rparr>"

section \<open>Basic facts\<close>

subsection \<open>Strings and digits\<close>

lemma lit_eq_iff: "lit s = lit t \<longleftrightarrow> s = t"
  by (simp add: lit_def inj_map_eq_map [OF inj_of_char])

lemma msg_Missing_neq_Invalid: "msg_MissingCredential \<noteq> msg_InvalidInput"
  by (simp add: msg_InvalidInput_def msg_MissingCredential_def lit_eq_iff)

lemma ascii_unicode_digit: "c < 128 \<Longrightarrow> unicode_digit c = ascii_digit c"
  by (simp add: unicode_digit_def digit_ranges_def in_range_def ascii_digit_def)

lemma ascii_digit_unicode_digit: "ascii_digit c \<Longrightarrow> unicode_digit c"
  by (simp add: unicode_digit_def digit_ranges_def in_range_def ascii_digit_def)

text \<open>Every string matching \<^verbatim>\<open>^[0-9]+$\<close> passes \<^verbatim>\<open>isdigit\<close>.\<close>

lemma regex_imp_isdigit: "matches_digits_regex s \<Longrightarrow> str_isdigit s"
  by (auto simp: matches_digits_regex_def str_isdigit_def list_all_iff
           intro: ascii_digit_unicode_digit)

text \<open>On strings of ASCII characters the two tests are the same.\<close>

lemma ascii_isdigit_iff:
  "list_all (\<lambda>c. c < 128) s \<Longrightarrow> str_isdigit s = matches_digits_regex s"
  by (auto simp: matches_digits_regex_def str_isdigit_def list_all_iff ascii_unicode_digit)

text \<open>The superscript digits U+00B2, U+00B3, U+00B9 are digits for \<^verbatim>\<open>isdigit\<close> only.\<close>

lemma superscripts_isdigit: "str_isdigit [178]" "str_isdigit [179]" "str_isdigit [185]"
  by (simp_all add: str_isdigit_def unicode_digit_def digit_ranges_def in_range_def)

lemma superscripts_not_regex:
  "\<not> matches_digits_regex [178]" "\<not> matches_digits_regex [179]"
  "\<not> matches_digits_regex [185]"
  by (simp_all add: matches_digits_regex_def ascii_digit_def)

lemma sample_ids_isdigit: "str_isdigit (lit ''1'')" "str_isdigit (lit ''42'')"
  by (simp_all add: lit_def str_isdigit_def unicode_digit_def digit_ranges_def in_range_def)

lemma abc_not_isdigit: "\<not> str_isdigit (lit ''abc'')"
  by (simp add: lit_def str_isdigit_def unicode_digit_def digit_ranges_def in_range_def)

subsection \<open>The script, branch by branch\<close>

lemma main_invalid:
  "\<not> str_isdigit (model a) \<Longrightarrow>
   main a w = \<lparr>exit_code = 1, trace = [Print msg_InvalidInput]\<rparr>"
  by (simp add: main_def)

lemma main_missing:
  "str_isdigit (model a) \<Longrightarrow> \<not> truthy (os_getenv (environ w) civitai_token (token a)) \<Longrightarrow>
   main a w = \<lparr>exit_code = 1, trace = [Print msg_MissingCredential]\<rparr>"
  by (simp add: main_def)

lemma main_probe:
  "str_isdigit (model a) \<Longrightarrow> os_getenv (environ w) civitai_token (token a) = Some t \<Longrightarrow>
   t \<noteq> [] \<Longrightarrow>
   main a w =
     (case requests_get w (metadata_url (model a)) of
        None \<Rightarrow> \<lparr>exit_code = 1, trace = [RequestsGet (metadata_url (model a)) None, Traceback]\<rparr>
      | Some s \<Rightarrow>
          if s = 200
          then after (RequestsGet (metadata_url (model a)) (Some s)) (download w (model a) t)
          else \<lparr>exit_code = 1,
                trace = [RequestsGet (metadata_url (model a)) (Some s),
                         Print msg_MetadataLookupFailed]\<rparr>)"
  by (simp add: main_def Let_def split: option.splits)

lemma download_trace_head:
  "\<exists>es. trace (download w m t) =
          SubprocessRun (wget_argv (download_url m t))
            (subprocess_run w (wget_argv (download_url m t))) # es \<and>
        filter is_get es = [] \<and> filter is_run es = []"
  by (simp add: download_def Let_def split: option.splits)

lemma main_valid_trace:
  assumes "str_isdigit (model a)"
  shows "trace (main a w) \<noteq> [Print msg_InvalidInput]"
proof (cases "truthy (os_getenv (environ w) civitai_token (token a))")
  case False
  with assms show ?thesis
    by (simp add: main_missing msg_Missing_neq_Invalid)
next
  case True
  then obtain t where "os_getenv (environ w) civitai_token (token a) = Some t" and "t \<noteq> []"
    by (cases "os_getenv (environ w) civitai_token (token a)") auto
  with assms show ?thesis
    by (simp add: main_probe after_def split: option.splits)
qed

lemmas script_defs =
  main_def Let_def after_def download_def wget_argv_def download_url_def metadata_url_def
  os_getenv_def

lemmas sample_defs = sample_world_def sample_env_def no_env_def

lemmas digit_defs = str_isdigit_def unicode_digit_def digit_ranges_def in_range_def

section \<open>The claims\<close>

subsection \<open>C1: which token is used\<close>

text \<open>
  C1, as stated: when both \<^verbatim>\<open>--token\<close> and the environment variable
  \<^verbatim>\<open>civitai_token\<close> are set to non-empty values, the token in the download URL is the
  \<^verbatim>\<open>--token\<close> value. The script reads \<^verbatim>\<open>os.getenv("civitai_token", args.token)\<close>, where
  the argument is only the default. With \<^verbatim>\<open>--model 1 --token A\<close> and
  \<^verbatim>\<open>civitai_token=B\<close>, a probe answering 200 and a successful \<^verbatim>\<open>wget\<close>, the URL handed
  to \<^verbatim>\<open>wget\<close> ends in \<^verbatim>\<open>token=B\<close>, which is not the URL ending in \<^verbatim>\<open>token=A\<close>.
\<close>

theorem C1_explicit_token_counterexample:
  "token \<lparr>model = lit ''1'', token = Some (lit ''A'')\<rparr> = Some (lit ''A'') \<and>
   environ (sample_world (sample_env (lit ''B'')) 200 0) civitai_token = Some (lit ''B'') \<and>
   main \<lparr>model = lit ''1'', token = Some (lit ''A'')\<rparr>
        (sample_world (sample_env (lit ''B'')) 200 0) =
     \<lparr>exit_code = 0,
      trace =
        [RequestsGet (lit ''https://civitai.com/api/v1/model-versions/1'') (Some 200),
         SubprocessRun
           [lit ''wget'',
            lit ''https://civitai.com/api/download/models/1?type=Model&format=SafeTensor&token=B'',
            lit ''--content-disposition''] (Some 0)]\<rparr> \<and>
   lit ''https://civitai.com/api/download/models/1?type=Model&format=SafeTensor&token=B'' \<noteq>
   lit ''https://civitai.com/api/download/models/1?type=Model&format=SafeTensor&token=A''"
  by (simp add: script_defs sample_defs digit_defs lit_def)

text \<open>
  C1, amended: whenever the download tool is run, the token in its URL is the value of
  the environment variable \<^verbatim>\<open>civitai_token\<close> if that variable is set, whatever
  \<^verbatim>\<open>--token\<close> says; the \<^verbatim>\<open>--token\<close> value is the one used only when the variable is
  not set.
\<close>

theorem C1_environment_token_used:
  assumes "SubprocessRun argv r \<in> set (trace (main a w))"
  shows "(\<forall>e. environ w civitai_token = Some e \<longrightarrow>
            argv = [lit ''wget'',
                    lit ''https://civitai.com/api/download/models/'' @ model a
                      @ lit ''?type=Model&format=SafeTensor&token='' @ e,
                    lit ''--content-disposition'']) \<and>
         (environ w civitai_token = None \<longrightarrow>
            (\<exists>t. token a = Some t \<and>
              argv = [lit ''wget'',
                      lit ''https://civitai.com/api/download/models/'' @ model a
                        @ lit ''?type=Model&format=SafeTensor&token='' @ t,
                      lit ''--content-disposition'']))"
  using assms
  by (cases "token a") (auto simp: script_defs split: if_splits option.splits)

theorem C1_environment_token_used_witness:
  "SubprocessRun
     [lit ''wget'',
      lit ''https://civitai.com/api/download/models/1?type=Model&format=SafeTensor&token=B'',
      lit ''--content-disposition''] (Some 0)
     \<in> set (trace (main \<lparr>model = lit ''1'', token = Some (lit ''A'')\<rparr>
                        (sample_world (sample_env (lit ''B'')) 200 0))) \<and>
   environ (sample_world (sample_env (lit ''B'')) 200 0) civitai_token = Some (lit ''B'') \<and>
   lit ''https://civitai.com/api/download/models/1?type=Model&format=SafeTensor&token=B'' =
   lit ''https://civitai.com/api/download/models/''
     @ model \<lparr>model = lit ''1'', token = Some (lit ''A'')\<rparr>
     @ lit ''?type=Model&format=SafeTensor&token='' @ lit ''B''"
proof -
  let ?a = "\<lparr>model = lit ''1'', token = Some (lit ''A'')\<rparr>"
  let ?w = "sample_world (sample_env (lit ''B'')) 200 0"
  let ?argv = "[lit ''wget'',
      lit ''https://civitai.com/api/download/models/1?type=Model&format=SafeTensor&token=B'',
      lit ''--content-disposition'']"
  have run: "SubprocessRun ?argv (Some 0) \<in> set (trace (main ?a ?w))"
    by (simp add: script_defs sample_defs digit_defs lit_def)
  have env: "environ ?w civitai_token = Some (lit ''B'')"
    by (simp add: sample_defs)
  from C1_environment_token_used [OF run] env
  have "?argv = [lit ''wget'',
                 lit ''https://civitai.com/api/download/models/'' @ model ?a
                   @ lit ''?type=Model&format=SafeTensor&token='' @ lit ''B'',
                 lit ''--content-disposition'']"
    by blast
  with run env show ?thesis by simp
qed

subsection \<open>C2: which model IDs pass the check\<close>

text \<open>
  C2, as stated: a model ID passes the InvalidInput check if and only if it matches
  \<^verbatim>\<open>^[0-9]+$\<close>. The check is \<^verbatim>\<open>args.model.isdigit()\<close>, which also holds for digits
  outside ASCII. The one-character model ID U+00B2 (superscript two) does not match
  \<^verbatim>\<open>^[0-9]+$\<close>, and the script goes on to probe and download with it.
\<close>

theorem C2_regex_counterexample:
  "\<not> matches_digits_regex [178] \<and>
   main \<lparr>model = [178], token = Some (lit ''T'')\<rparr> (sample_world no_env 200 0) =
     \<lparr>exit_code = 0,
      trace =
        [RequestsGet (lit ''https://civitai.com/api/v1/model-versions/'' @ [178]) (Some 200),
         SubprocessRun
           [lit ''wget'',
            lit ''https://civitai.com/api/download/models/'' @ [178]
              @ lit ''?type=Model&format=SafeTensor&token=T'',
            lit ''--content-disposition''] (Some 0)]\<rparr>"
  by (simp add: script_defs sample_defs digit_defs matches_digits_regex_def ascii_digit_def
        lit_def)

text \<open>
  C2, amended: a model ID passes the InvalidInput check if and only if it is not empty
  and each of its characters is a Unicode digit (Numeric\_Type Digit or Decimal); for a
  model ID made of ASCII characters only, that is if and only if it matches
  \<^verbatim>\<open>^[0-9]+$\<close>.
\<close>

theorem C2_accepted_iff_isdigit:
  "(main a w \<noteq> \<lparr>exit_code = 1, trace = [Print msg_InvalidInput]\<rparr>) =
     (model a \<noteq> [] \<and> (\<forall>c\<in>set (model a). unicode_digit c)) \<and>
   ((\<forall>c\<in>set (model a). c < 128) \<longrightarrow>
      (main a w \<noteq> \<lparr>exit_code = 1, trace = [Print msg_InvalidInput]\<rparr>) =
        matches_digits_regex (model a))"
proof -
  have acc: "(main a w \<noteq> \<lparr>exit_code = 1, trace = [Print msg_InvalidInput]\<rparr>) =
               str_isdigit (model a)"
  proof (cases "str_isdigit (model a)")
    case True
    from main_valid_trace [OF True, of w] True show ?thesis
      by auto
  next
    case False
    then show ?thesis
      by (simp add: main_invalid)
  qed
  show ?thesis
    using acc ascii_isdigit_iff [of "model a"]
    by (simp add: str_isdigit_def list_all_iff)
qed

theorem C2_accepted_iff_isdigit_witness:
  "matches_digits_regex (lit ''42'') \<and>
   main \<lparr>model = lit ''42'', token = None\<rparr> (sample_world no_env 200 0) \<noteq>
     \<lparr>exit_code = 1, trace = [Print msg_InvalidInput]\<rparr> \<and>
   \<not> matches_digits_regex (lit ''abc'') \<and>
   main \<lparr>model = lit ''abc'', token = None\<rparr> (sample_world no_env 200 0) =
     \<lparr>exit_code = 1, trace = [Print msg_InvalidInput]\<rparr>"
  using C2_accepted_iff_isdigit
          [of "\<lparr>model = lit ''42'', token = None\<rparr>" "sample_world no_env 200 0"]
        C2_accepted_iff_isdigit
          [of "\<lparr>model = lit ''abc'', token = None\<rparr>" "sample_world no_env 200 0"]
  by (simp add: lit_def matches_digits_regex_def ascii_digit_def)

subsection \<open>C3: the download after a successful probe\<close>

text \<open>
  C3: whenever the metadata probe answers status 200, the download tool is invoked
  exactly once, as \<^verbatim>\<open>wget <url> --content-disposition\<close>, where the URL is
  \<^verbatim>\<open>https://civitai.com/api/download/models/{ModelID}?type=Model&format=SafeTensor&token={Token}\<close>
  with the model ID and the resolved token put in unchanged.
\<close>

theorem C3_download_invoked_once:
  assumes "RequestsGet u (Some 200) \<in> set (trace (main a w))"
  shows "\<exists>t r. os_getenv (environ w) civitai_token (token a) = Some t \<and>
           filter is_run (trace (main a w)) =
             [SubprocessRun
                [lit ''wget'',
                 lit ''https://civitai.com/api/download/models/'' @ model a
                   @ lit ''?type=Model&format=SafeTensor&token='' @ t,
                 lit ''--content-disposition''] r]"
  using assms
  by (cases "os_getenv (environ w) civitai_token (token a)")
     (auto simp: main_def Let_def after_def download_def wget_argv_def download_url_def
           split: if_splits option.splits)

theorem C3_download_invoked_once_witness:
  "RequestsGet (lit ''https://civitai.com/api/v1/model-versions/42'') (Some 200)
     \<in> set (trace (main \<lparr>model = lit ''42'', token = Some (lit ''T'')\<rparr>
                        (sample_world no_env 200 8))) \<and>
   os_getenv (environ (sample_world no_env 200 8)) civitai_token
     (token \<lparr>model = lit ''42'', token = Some (lit ''T'')\<rparr>) = Some (lit ''T'') \<and>
   filter is_run (trace (main \<lparr>model = lit ''42'', token = Some (lit ''T'')\<rparr>
                              (sample_world no_env 200 8))) =
     [SubprocessRun
        [lit ''wget'',
         lit ''https://civitai.com/api/download/models/42?type=Model&format=SafeTensor&token=T'',
         lit ''--content-disposition''] (Some 8)]"
proof -
  let ?a = "\<lparr>model = lit ''42'', token = Some (lit ''T'')\<rparr>"
  let ?w = "sample_world no_env 200 8"
  have probe: "RequestsGet (lit ''https://civitai.com/api/v1/model-versions/42'') (Some 200)
                 \<in> set (trace (main ?a ?w))"
    by (simp add: script_defs sample_defs digit_defs lit_def)
  have tok: "os_getenv (environ ?w) civitai_token (token ?a) = Some (lit ''T'')"
    by (simp add: os_getenv_def sample_defs)
  from C3_download_invoked_once [OF probe] tok
  obtain r where run: "filter is_run (trace (main ?a ?w)) =
      [SubprocessRun
         [lit ''wget'',
          lit ''https://civitai.com/api/download/models/'' @ model ?a
            @ lit ''?type=Model&format=SafeTensor&token='' @ lit ''T'',
          lit ''--content-disposition''] r]"
    by auto
  have "SubprocessRun
          [lit ''wget'',
           lit ''https://civitai.com/api/download/models/42?type=Model&format=SafeTensor&token=T'',
           lit ''--content-disposition''] (Some 8) \<in> set (filter is_run (trace (main ?a ?w)))"
    by (simp add: script_defs sample_defs digit_defs lit_def)
  with run have "r = Some 8"
    by simp
  with run probe tok show ?thesis
    by (simp add: lit_def)
qed

subsection \<open>C4: the metadata probe\<close>

text \<open>
  C4: with a valid model ID (one matching \<^verbatim>\<open>^[0-9]+$\<close>, or any other that passes the
  script's check) and a token that resolves to a non-empty string, the script
  issues exactly one GET request, to
  \<^verbatim>\<open>https://civitai.com/api/v1/model-versions/{ModelID}\<close>; if the answer has a status
  other than 200, the script prints the MetadataLookupFailed message and exits with
  code 1, and these two are all it does: the download tool is not invoked.
\<close>

theorem C4_probe_once_and_failure:
  assumes "matches_digits_regex (model a) \<or> str_isdigit (model a)"
    and "os_getenv (environ w) civitai_token (token a) = Some t"
    and "t \<noteq> []"
  shows "filter is_get (trace (main a w)) =
           [RequestsGet (lit ''https://civitai.com/api/v1/model-versions/'' @ model a)
              (requests_get w (lit ''https://civitai.com/api/v1/model-versions/'' @ model a))] \<and>
         (\<forall>s. requests_get w (lit ''https://civitai.com/api/v1/model-versions/'' @ model a)
                 = Some s \<longrightarrow> s \<noteq> 200 \<longrightarrow>
            main a w =
              \<lparr>exit_code = 1,
               trace = [RequestsGet (lit ''https://civitai.com/api/v1/model-versions/'' @ model a)
                          (Some s),
                        Print msg_MetadataLookupFailed]\<rparr> \<and>
            filter is_run (trace (main a w)) = [])"
proof -
  from assms(1) have valid: "str_isdigit (model a)"
    by (auto dest: regex_imp_isdigit)
  obtain es where es: "trace (download w (model a) t) =
      SubprocessRun (wget_argv (download_url (model a) t))
        (subprocess_run w (wget_argv (download_url (model a) t))) # es"
    "filter is_get es = []"
    using download_trace_head [of w "model a" t] by blast
  show ?thesis
    using es
    by (simp add: main_probe [OF valid assms(2,3)] metadata_url_def after_def
          split: option.splits)
qed

theorem C4_probe_once_and_failure_witness:
  "matches_digits_regex (lit ''42'') \<and>
   filter is_get (trace (main \<lparr>model = lit ''42'', token = None\<rparr>
                              (sample_world (sample_env (lit ''T'')) 404 0))) =
     [RequestsGet (lit ''https://civitai.com/api/v1/model-versions/42'') (Some 404)] \<and>
   main \<lparr>model = lit ''42'', token = None\<rparr> (sample_world (sample_env (lit ''T'')) 404 0) =
     \<lparr>exit_code = 1,
      trace = [RequestsGet (lit ''https://civitai.com/api/v1/model-versions/42'') (Some 404),
               Print msg_MetadataLookupFailed]\<rparr>"
proof -
  let ?a = "\<lparr>model = lit ''42'', token = None\<rparr>"
  let ?w = "sample_world (sample_env (lit ''T'')) 404 0"
  have re: "matches_digits_regex (lit ''42'')"
    by (simp add: lit_def matches_digits_regex_def ascii_digit_def)
  then have valid: "matches_digits_regex (model ?a) \<or> str_isdigit (model ?a)"
    by simp
  have tok: "os_getenv (environ ?w) civitai_token (token ?a) = Some (lit ''T'')"
    by (simp add: os_getenv_def sample_defs)
  have ne: "lit ''T'' \<noteq> []"
    by (simp add: lit_def)
  have resp: "requests_get ?w (lit ''https://civitai.com/api/v1/model-versions/'' @ model ?a)
                = Some 404"
    by (simp add: sample_defs)
  from C4_probe_once_and_failure [OF valid tok ne] resp re show ?thesis
    by (simp add: lit_def)
qed

subsection \<open>C5: rejected model IDs\<close>

text \<open>
  C5, as stated: for every string that is not a string of the digits 0 to 9, the script
  prints the InvalidInput message, exits with code 1 and makes no network call. The
  one-character model ID U+00B3 (superscript three) is no such digit string, yet with
  \<^verbatim>\<open>civitai_token=T\<close>, a probe answering 200 and a successful \<^verbatim>\<open>wget\<close> the script
  makes both network calls and exits with code 0.
\<close>

theorem C5_non_digit_counterexample:
  "\<not> matches_digits_regex [179] \<and>
   main \<lparr>model = [179], token = None\<rparr> (sample_world (sample_env (lit ''T'')) 200 0) =
     \<lparr>exit_code = 0,
      trace =
        [RequestsGet (lit ''https://civitai.com/api/v1/model-versions/'' @ [179]) (Some 200),
         SubprocessRun
           [lit ''wget'',
            lit ''https://civitai.com/api/download/models/'' @ [179]
              @ lit ''?type=Model&format=SafeTensor&token=T'',
            lit ''--content-disposition''] (Some 0)]\<rparr>"
  by (simp add: script_defs sample_defs digit_defs matches_digits_regex_def ascii_digit_def
        lit_def)

text \<open>
  C5, amended: for every model ID that \<^verbatim>\<open>str.isdigit\<close> rejects (the empty string and
  every string with a character that is not a Unicode digit, so every string of ASCII
  characters that does not match \<^verbatim>\<open>^[0-9]+$\<close>), the script prints the InvalidInput
  message and exits with code 1, and the message is its only effect: no probe, no
  download.
\<close>

theorem C5_invalid_input:
  "(\<not> str_isdigit (model a) \<longrightarrow>
      main a w = \<lparr>exit_code = 1, trace = [Print msg_InvalidInput]\<rparr> \<and>
      filter is_get (trace (main a w)) = [] \<and> filter is_run (trace (main a w)) = []) \<and>
   (list_all (\<lambda>c. c < 128) (model a) \<longrightarrow> \<not> matches_digits_regex (model a) \<longrightarrow>
      main a w = \<lparr>exit_code = 1, trace = [Print msg_InvalidInput]\<rparr>)"
  using ascii_isdigit_iff [of "model a"] by (simp add: main_invalid)

theorem C5_invalid_input_witness:
  "\<not> str_isdigit (lit ''abc'') \<and> \<not> matches_digits_regex (lit ''abc'') \<and>
   list_all (\<lambda>c. c < 128) (lit ''abc'') \<and>
   main \<lparr>model = lit ''abc'', token = Some (lit ''T'')\<rparr> (sample_world no_env 200 0) =
     \<lparr>exit_code = 1, trace = [Print msg_InvalidInput]\<rparr>"
  using C5_invalid_input
          [of "\<lparr>model = lit ''abc'', token = Some (lit ''T'')\<rparr>" "sample_world no_env 200 0"]
        abc_not_isdigit
  by (simp add: lit_def matches_digits_regex_def ascii_digit_def)

subsection \<open>C6: no token at all\<close>

text \<open>
  C6: for every digit-string model ID (one matching \<^verbatim>\<open>^[0-9]+$\<close>, or any other that
  passes the script's check), if \<^verbatim>\<open>--token\<close> is not given and the environment
  variable \<^verbatim>\<open>civitai_token\<close> is not set, the script prints the MissingCredential
  message and exits with code 1, and the message is its only effect: no network call.
\<close>

theorem C6_missing_credential:
  assumes "matches_digits_regex (model a) \<or> str_isdigit (model a)"
    and "token a = None"
    and "environ w civitai_token = None"
  shows "main a w = \<lparr>exit_code = 1, trace = [Print msg_MissingCredential]\<rparr> \<and>
         filter is_get (trace (main a w)) = [] \<and> filter is_run (trace (main a w)) = []"
proof -
  from assms(1) have "str_isdigit (model a)"
    by (auto dest: regex_imp_isdigit)
  moreover from assms(2,3) have "\<not> truthy (os_getenv (environ w) civitai_token (token a))"
    by (simp add: os_getenv_def)
  ultimately show ?thesis
    by (simp add: main_missing)
qed

theorem C6_missing_credential_witness:
  "matches_digits_regex (lit ''42'') \<and>
   token \<lparr>model = lit ''42'', token = None\<rparr> = None \<and>
   environ (sample_world no_env 200 0) civitai_token = None \<and>
   main \<lparr>model = lit ''42'', token = None\<rparr> (sample_world no_env 200 0) =
     \<lparr>exit_code = 1, trace = [Print msg_MissingCredential]\<rparr>"
proof -
  let ?a = "\<lparr>model = lit ''42'', token = None\<rparr>"
  let ?w = "sample_world no_env 200 0"
  have valid: "matches_digits_regex (model ?a) \<or> str_isdigit (model ?a)"
    by (simp add: lit_def matches_digits_regex_def ascii_digit_def)
  have tok: "token ?a = None"
    by simp
  have env: "environ ?w civitai_token = None"
    by (simp add: sample_defs)
  from C6_missing_credential [OF valid tok env] env show ?thesis
    by (simp add: lit_def matches_digits_regex_def ascii_digit_def)
qed

subsection \<open>C7 and C8: the result of the download\<close>

text \<open>
  C7: an invocation reaches the download step when the model ID is valid (it matches
  \<^verbatim>\<open>^[0-9]+$\<close>, or passes the script's check otherwise), the token resolves to a
  non-empty string and the metadata probe answers 200. For every such invocation, if
  the download tool, run on the download URL, ends with a return code other than zero,
  the script prints the DownloadFailed message (and no other message) and exits with
  code 1.
\<close>

theorem C7_download_failed:
  assumes "matches_digits_regex (model a) \<or> str_isdigit (model a)"
    and "os_getenv (environ w) civitai_token (token a) = Some t"
    and "t \<noteq> []"
    and "requests_get w (metadata_url (model a)) = Some 200"
    and "subprocess_run w (wget_argv (download_url (model a) t)) = Some rc"
    and "rc \<noteq> 0"
  shows "main a w =
           \<lparr>exit_code = 1,
            trace = [RequestsGet (metadata_url (model a)) (Some 200),
                     SubprocessRun (wget_argv (download_url (model a) t)) (Some rc),
                     Print msg_DownloadFailed]\<rparr> \<and>
         exit_code (main a w) = 1 \<and>
         filter is_print (trace (main a w)) = [Print msg_DownloadFailed]"
proof -
  from assms(1) have valid: "str_isdigit (model a)"
    by (auto dest: regex_imp_isdigit)
  have dl: "download w (model a) t =
              \<lparr>exit_code = 1,
               trace = [SubprocessRun (wget_argv (download_url (model a) t)) (Some rc),
                        Print msg_DownloadFailed]\<rparr>"
    using assms(5,6) by (simp add: download_def Let_def)
  have "main a w =
          after (RequestsGet (metadata_url (model a)) (Some 200)) (download w (model a) t)"
    using assms(4) by (simp add: main_probe [OF valid assms(2,3)])
  with dl show ?thesis
    by (simp add: after_def)
qed

theorem C7_download_failed_witness:
  "matches_digits_regex (lit ''42'') \<and>
   os_getenv (environ (sample_world no_env 200 8)) civitai_token
     (token \<lparr>model = lit ''42'', token = Some (lit ''T'')\<rparr>) = Some (lit ''T'') \<and>
   requests_get (sample_world no_env 200 8)
     (lit ''https://civitai.com/api/v1/model-versions/42'') = Some 200 \<and>
   subprocess_run (sample_world no_env 200 8)
     [lit ''wget'',
      lit ''https://civitai.com/api/download/models/42?type=Model&format=SafeTensor&token=T'',
      lit ''--content-disposition''] = Some 8 \<and>
   main \<lparr>model = lit ''42'', token = Some (lit ''T'')\<rparr> (sample_world no_env 200 8) =
     \<lparr>exit_code = 1,
      trace =
        [RequestsGet (lit ''https://civitai.com/api/v1/model-versions/42'') (Some 200),
         SubprocessRun
           [lit ''wget'',
            lit ''https://civitai.com/api/download/models/42?type=Model&format=SafeTensor&token=T'',
            lit ''--content-disposition''] (Some 8),
         Print msg_DownloadFailed]\<rparr>"
proof -
  let ?a = "\<lparr>model = lit ''42'', token = Some (lit ''T'')\<rparr>"
  let ?w = "sample_world no_env 200 8"
  have re: "matches_digits_regex (lit ''42'')"
    by (simp add: lit_def matches_digits_regex_def ascii_digit_def)
  then have valid: "matches_digits_regex (model ?a) \<or> str_isdigit (model ?a)"
    by simp
  have tok: "os_getenv (environ ?w) civitai_token (token ?a) = Some (lit ''T'')"
    by (simp add: os_getenv_def sample_defs)
  have ne: "lit ''T'' \<noteq> []"
    by (simp add: lit_def)
  have probe: "requests_get ?w (metadata_url (model ?a)) = Some 200"
    by (simp add: sample_defs)
  have run: "subprocess_run ?w (wget_argv (download_url (model ?a) (lit ''T''))) = Some 8"
    by (simp add: sample_defs)
  have nz: "(8::int) \<noteq> 0"
    by simp
  from C7_download_failed [OF valid tok ne probe run nz] re tok show ?thesis
    by (simp add: sample_defs metadata_url_def wget_argv_def download_url_def lit_def)
qed



subsection \<open>C9: the order of the two checks\<close>

text \<open>
  C9, as stated: whenever the model ID is not a string of the digits 0 to 9 and no
  token can be resolved, the failure reported is InvalidInput and not
  MissingCredential. With the one-character model ID U+00B9 (superscript one), no
  \<^verbatim>\<open>--token\<close> and no environment variable, the model ID passes \<^verbatim>\<open>isdigit\<close> and the
  script reports MissingCredential.
\<close>

theorem C9_order_counterexample:
  "\<not> matches_digits_regex [185] \<and>
   \<not> truthy (os_getenv (environ (sample_world no_env 200 0)) civitai_token
               (token \<lparr>model = [185], token = None\<rparr>)) \<and>
   main \<lparr>model = [185], token = None\<rparr> (sample_world no_env 200 0) =
     \<lparr>exit_code = 1, trace = [Print msg_MissingCredential]\<rparr> \<and>
   msg_MissingCredential \<noteq> msg_InvalidInput"
  by (simp add: script_defs sample_defs digit_defs matches_digits_regex_def ascii_digit_def
        msg_Missing_neq_Invalid)

text \<open>
  C9, amended: the model ID is checked before the token. Whenever \<^verbatim>\<open>str.isdigit\<close>
  rejects the model ID and no token can be resolved, the failure reported is
  InvalidInput and the MissingCredential message is not printed; and whenever the
  MissingCredential message is printed, the model ID has passed the check.
\<close>

theorem C9_model_check_first:
  "(\<not> str_isdigit (model a) \<longrightarrow>
      \<not> truthy (os_getenv (environ w) civitai_token (token a)) \<longrightarrow>
      main a w = \<lparr>exit_code = 1, trace = [Print msg_InvalidInput]\<rparr> \<and>
      Print msg_MissingCredential \<notin> set (trace (main a w))) \<and>
   (Print msg_MissingCredential \<in> set (trace (main a w)) \<longrightarrow> str_isdigit (model a))"
proof -
  have absent: "\<not> str_isdigit (model a) \<Longrightarrow>
                Print msg_MissingCredential \<notin> set (trace (main a w))"
    by (simp add: main_invalid msg_Missing_neq_Invalid)
  from absent main_invalid [of a w] show ?thesis
    by blast
qed

theorem C9_model_check_first_witness:
  "\<not> str_isdigit (lit ''abc'') \<and>
   \<not> truthy (os_getenv (environ (sample_world no_env 200 0)) civitai_token
               (token \<lparr>model = lit ''abc'', token = None\<rparr>)) \<and>
   main \<lparr>model = lit ''abc'', token = None\<rparr> (sample_world no_env 200 0) =
     \<lparr>exit_code = 1, trace = [Print msg_InvalidInput]\<rparr> \<and>
   Print msg_MissingCredential
     \<in> set (trace (main \<lparr>model = lit ''42'', token = None\<rparr> (sample_world no_env 200 0))) \<and>
   str_isdigit (lit ''42'')"
proof -
  let ?w = "sample_world no_env 200 0"
  have invalid: "\<not> str_isdigit (model \<lparr>model = lit ''abc'', token = None\<rparr>)"
    by (simp add: abc_not_isdigit)
  have notok: "\<not> truthy (os_getenv (environ ?w) civitai_token
                           (token \<lparr>model = lit ''abc'', token = None\<rparr>))"
    by (simp add: os_getenv_def sample_defs)
  have printed: "Print msg_MissingCredential
                   \<in> set (trace (main \<lparr>model = lit ''42'', token = None\<rparr> ?w))"
    by (simp add: script_defs sample_defs digit_defs lit_def)
  from C9_model_check_first [of "\<lparr>model = lit ''abc'', token = None\<rparr>" ?w] invalid notok
  have first: "main \<lparr>model = lit ''abc'', token = None\<rparr> ?w =
                 \<lparr>exit_code = 1, trace = [Print msg_InvalidInput]\<rparr>"
    by blast
  from C9_model_check_first [of "\<lparr>model = lit ''42'', token = None\<rparr>" ?w] printed
  have second: "str_isdigit (lit ''42'')"
    by simp
  from invalid notok first printed second show ?thesis
    by simp
qed

subsection \<open>C10: an empty environment variable\<close>

text \<open>
  C10, as stated: whenever the environment variable \<^verbatim>\<open>civitai_token\<close> is set to the
  empty string, the script fails with MissingCredential, even with a non-empty
  \<^verbatim>\<open>--token\<close>. The model ID is checked first: with \<^verbatim>\<open>--model abc --token T\<close> and an
  empty \<^verbatim>\<open>civitai_token\<close> the failure is InvalidInput, and its message is the only one
  printed.
\<close>

theorem C10_empty_env_counterexample:
  "environ (sample_world (sample_env []) 200 0) civitai_token = Some [] \<and>
   token \<lparr>model = lit ''abc'', token = Some (lit ''T'')\<rparr> = Some (lit ''T'') \<and>
   lit ''T'' \<noteq> [] \<and>
   main \<lparr>model = lit ''abc'', token = Some (lit ''T'')\<rparr> (sample_world (sample_env []) 200 0) =
     \<lparr>exit_code = 1, trace = [Print msg_InvalidInput]\<rparr> \<and>
   msg_InvalidInput \<noteq> msg_MissingCredential"
  using msg_Missing_neq_Invalid [THEN not_sym]
  by (simp add: script_defs sample_defs digit_defs lit_def)

text \<open>
  C10, amended: whenever the model ID passes the check and the environment variable
  \<^verbatim>\<open>civitai_token\<close> is set to the empty string, the script prints the MissingCredential
  message and exits with code 1, whatever \<^verbatim>\<open>--token\<close> is, also a non-empty one: the
  value of the variable, even when empty, stands in for the argument before the
  emptiness check.
\<close>

theorem C10_empty_env_missing_credential:
  assumes "str_isdigit (model a)" and "environ w civitai_token = Some []"
  shows "os_getenv (environ w) civitai_token (token a) = Some [] \<and>
         main a w = \<lparr>exit_code = 1, trace = [Print msg_MissingCredential]\<rparr>"
proof -
  from assms(2) have "os_getenv (environ w) civitai_token (token a) = Some []"
    by (simp add: os_getenv_def)
  with assms(1) show ?thesis
    by (simp add: main_missing)
qed

theorem C10_empty_env_missing_credential_witness:
  "str_isdigit (lit ''42'') \<and>
   environ (sample_world (sample_env []) 200 0) civitai_token = Some [] \<and>
   token \<lparr>model = lit ''42'', token = Some (lit ''T'')\<rparr> = Some (lit ''T'') \<and>
   lit ''T'' \<noteq> [] \<and>
   main \<lparr>model = lit ''42'', token = Some (lit ''T'')\<rparr> (sample_world (sample_env []) 200 0) =
     \<lparr>exit_code = 1, trace = [Print msg_MissingCredential]\<rparr>"
proof -
  let ?a = "\<lparr>model = lit ''42'', token = Some (lit ''T'')\<rparr>"
  let ?w = "sample_world (sample_env []) 200 0"
  have valid: "str_isdigit (model ?a)"
    by (simp add: sample_ids_isdigit)
  have env: "environ ?w civitai_token = Some []"
    by (simp add: sample_defs)
  from C10_empty_env_missing_credential [OF valid env] valid env show ?thesis
    by (simp add: lit_def)
qed

end
